theory Spec2Isabelle
  imports Main "HOL-Library.Word" "HOL-Library.Finite_Map" "HOL-Library.Multiset"
begin

section \<open>Durations, instants and dynamically typed values\<close>

text \<open>
  \<^verbatim>\<open>time.Duration\<close> is an \<^verbatim>\<open>int64\<close> count of nanoseconds; arithmetic on it wraps.
  A \<^verbatim>\<open>time.Time\<close> is modelled by the number of nanoseconds between the Unix epoch and
  the instant, as an unbounded integer (the Go type covers far more than the \<^verbatim>\<open>int64\<close>
  range); \<^verbatim>\<open>UnixNano\<close> reduces it to 64 bits. The clock reading \<^verbatim>\<open>time.Now()\<close> is a
  parameter \<open>now\<close> of every operation that reads the clock.
\<close>

type_synonym int64 = "64 word"
type_synonym Duration = "64 word"
type_synonym Time = int

definition Millisecond :: Duration where
  "Millisecond = 1000000"

definition Second :: Duration where
  "Second = 1000000000"

definition Minute :: Duration where
  "Minute = 60 * Second"

definition UnixNano :: "Time \<Rightarrow> int64" where
  "UnixNano t = word_of_int t"

definition Add :: "Time \<Rightarrow> Duration \<Rightarrow> Time" where
  "Add t d = t + sint d"

text \<open>The constants of the options file (\<^verbatim>\<open>NoLenLimit\<close>, \<^verbatim>\<open>NoExpire\<close>,
  \<^verbatim>\<open>DefaultExpire\<close>, \<^verbatim>\<open>DefaultCgPeriod\<close>).\<close>

definition NoLenLimit :: int where
  "NoLenLimit = 0"

definition NoExpire :: Duration where
  "NoExpire = - 1"

definition DefaultExpire :: Duration where
  "DefaultExpire = 0"

definition DefaultCgPeriod :: Duration where
  "DefaultCgPeriod = 5 * Minute"

text \<open>
  An \<^verbatim>\<open>interface{}\<close> value: the dynamic type is the constructor. \<^verbatim>\<open>int\<close> and
  \<^verbatim>\<open>uint\<close> are 64 bits wide. \<open>VItemPtr obj exp\<close> is a non-nil \<^verbatim>\<open>*item\<close> whose
  fields are \<open>obj\<close> and \<open>exp\<close> when the pointer is handed out; \<open>VOther\<close> stands for
  a value of any other dynamic type.
\<close>

datatype go_value =
    VNil
  | VInt "64 word"
  | VInt8 "8 word"
  | VInt16 "16 word"
  | VInt32 "32 word"
  | VInt64 "64 word"
  | VUint "64 word"
  | VUint8 "8 word"
  | VUint16 "16 word"
  | VUint32 "32 word"
  | VUint64 "64 word"
  | VDuration Duration
  | VTime Time
  | VTimePtr "Time option"
  | VString string
  | VBool bool
  | VItemPtr go_value int64
  | VOther string

text \<open>Run-time panics of the Go code are values of the model.\<close>

datatype panic =
    InterfaceConversion
  | NilPointerDereference

text \<open>The type assertions \<^verbatim>\<open>i.(int64)\<close> and \<^verbatim>\<open>i.(uint64)\<close>: they succeed only when
  the dynamic type is exactly the asserted one.\<close>

definition assert_int64 :: "go_value \<Rightarrow> panic + int64" where
  "assert_int64 i = (case i of VInt64 n \<Rightarrow> Inr n | _ \<Rightarrow> Inl InterfaceConversion)"

definition assert_uint64 :: "go_value \<Rightarrow> panic + 64 word" where
  "assert_uint64 i = (case i of VUint64 n \<Rightarrow> Inr n | _ \<Rightarrow> Inl InterfaceConversion)"

text \<open>The two multi-type cases of the type switch in \<^verbatim>\<open>toTime\<close>.\<close>

fun is_signed_int :: "go_value \<Rightarrow> bool" where
  "is_signed_int (VInt _) = True"
| "is_signed_int (VInt8 _) = True"
| "is_signed_int (VInt16 _) = True"
| "is_signed_int (VInt32 _) = True"
| "is_signed_int (VInt64 _) = True"
| "is_signed_int _ = False"

fun is_unsigned_int :: "go_value \<Rightarrow> bool" where
  "is_unsigned_int (VUint _) = True"
| "is_unsigned_int (VUint8 _) = True"
| "is_unsigned_int (VUint16 _) = True"
| "is_unsigned_int (VUint32 _) = True"
| "is_unsigned_int (VUint64 _) = True"
| "is_unsigned_int _ = False"

section \<open>Deadline resolution\<close>

fun toTime_rank :: "go_value \<Rightarrow> nat" where
  "toTime_rank (VDuration _) = 1"
| "toTime_rank v = (if is_signed_int v \<or> is_unsigned_int v then 2 else 0)"

function toTime :: "Time \<Rightarrow> go_value \<Rightarrow> panic + int64" where
  "toTime now i =
     (if i = VNil then Inr NoExpire
      else if is_signed_int i then
        (case assert_int64 i of
           Inl p \<Rightarrow> Inl p
         | Inr n \<Rightarrow> toTime now (VDuration (Second * n)))
      else if is_unsigned_int i then
        (case assert_uint64 i of
           Inl p \<Rightarrow> Inl p
         | Inr n \<Rightarrow> toTime now (VDuration (Second * n)))
      else
        (case i of
           VDuration dur \<Rightarrow>
             if dur = DefaultExpire then Inr DefaultExpire
             else if dur = NoExpire then Inr NoExpire
             else toTime now (VTime (Add now dur))
         | VTime t \<Rightarrow> Inr (UnixNano t)
         | VTimePtr p \<Rightarrow>
             (case p of
                Some t \<Rightarrow> Inr (UnixNano t)
              | None \<Rightarrow> Inr DefaultExpire)
         | _ \<Rightarrow> Inr DefaultExpire))"
  by pat_completeness auto
termination
  by (relation "measure (\<lambda>(now, i). toTime_rank i)")
    (auto simp: assert_int64_def assert_uint64_def split: go_value.splits)

declare toTime.simps [simp del]

section \<open>Events\<close>

datatype Event =
    EventAny
  | EventGet
  | EventMiss
  | EventSet
  | EventUpdate
  | EventTouch
  | EventError
  | EventRemove
  | EventExpire
  | EventFlush
  | EventClean

text \<open>
  An \<^verbatim>\<open>OnEventHandler\<close> is a function value; the model keeps only its identity. A
  \<open>call\<close> records one \<^verbatim>\<open>go h.handler(event, key, val)\<close>. The chain is a linked list
  of \<^verbatim>\<open>*eventHandler\<close>, \<open>None\<close> being the nil pointer.
\<close>

type_synonym OnEventHandler = nat
type_synonym call = "OnEventHandler \<times> Event \<times> string \<times> go_value"

datatype eventHandler =
  EventHandler (h_events: "Event list") (h_handler: OnEventHandler) (h_next: "eventHandler option")

text \<open>The \<^verbatim>\<open>for _, e := range h.events\<close> loop of \<^verbatim>\<open>fire\<close>: the handler is started at
  the first matching kind and the loop returns.\<close>

fun fire_loop :: "Event list \<Rightarrow> OnEventHandler \<Rightarrow> Event \<Rightarrow> string \<Rightarrow> go_value \<Rightarrow> call list" where
  "fire_loop [] hnd event key val = []"
| "fire_loop (e # es) hnd event key val =
     (if e = EventAny \<or> e = event then [(hnd, event, key, val)]
      else fire_loop es hnd event key val)"

text \<open>
  \<^verbatim>\<open>fire\<close> returns the handler calls it starts, those of the rest of the chain first
  (the source starts \<^verbatim>\<open>go h.next.fire(...)\<close> before its own loop). Every call runs in
  a goroutine of its own, so the order of the list carries no meaning.
\<close>

fun fire :: "eventHandler option \<Rightarrow> Event \<Rightarrow> string \<Rightarrow> go_value \<Rightarrow> call list" where
  "fire None event key val = []"
| "fire (Some (EventHandler es hnd nxt)) event key val =
     (if nxt \<noteq> None then fire nxt event key val else []) @ fire_loop es hnd event key val"

section \<open>The store\<close>

record item =
  Object :: go_value
  expire :: int64

record gc =
  Interval :: Duration

text \<open>
  The struct \<^verbatim>\<open>stash\<close> without its lock: the model is sequential. The field \<open>gc\<close>
  is \<open>None\<close> until \<^verbatim>\<open>startGc\<close> has started the sweeper.
\<close>

record stash =
  expirePeriod :: Duration
  gcPeriod :: Duration
  lenLimit :: int
  lenCurrent :: int
  items :: "(string, item) fmap"
  events :: "eventHandler option"
  gc :: "gc option"

text \<open>\<^verbatim>\<open>len(c.items)\<close>.\<close>

definition len :: "(string, item) fmap \<Rightarrow> int" where
  "len m = int (fcard (fmdom m))"

text \<open>A Go \<^verbatim>\<open>error\<close>: \<open>None\<close> is nil, \<open>Some msg\<close> an error with that message.\<close>

type_synonym error = "string option"

definition resolveTime :: "stash \<Rightarrow> go_value list \<Rightarrow> Time \<Rightarrow> panic + (int64 \<times> error)" where
  "resolveTime c i now =
     (case (if length i > 1 then toTime now (i ! 1) else Inr 0) of
        Inl p \<Rightarrow> Inl p
      | Inr expire1 \<Rightarrow>
          (case (if expire1 = DefaultExpire then toTime now (VDuration (expirePeriod c))
                 else Inr expire1) of
             Inl p \<Rightarrow> Inl p
           | Inr expire2 \<Rightarrow>
               Inr (expire2,
                    if 0 <s expire2 \<and> expire2 <s UnixNano now
                    then Some ''expire time is in the past'' else None)))"

text \<open>
  Every operation returns the store after the call, the \<^verbatim>\<open>go c.events.fire(e, key, val)\<close>
  statements it executed (an \<open>emission\<close> each) and what the call returned, or the panic
  that ended it.
\<close>

type_synonym emission = "Event \<times> string \<times> go_value"

definition Set :: "stash \<Rightarrow> string \<Rightarrow> go_value list \<Rightarrow> Time \<Rightarrow> stash \<times> emission list \<times> (panic + error)" where
  "Set c key i now =
     (if length i = 0 \<or> i ! 0 = VNil then (c, [], Inr (Some ''object not provided''))
      else if lenLimit c > 0 \<and> lenCurrent c \<ge> lenLimit c
        then (c, [], Inr (Some ''len limit reached''))
      else
        (case resolveTime c i now of
           Inl p \<Rightarrow> (c, [], Inl p)
         | Inr (exp, err) \<Rightarrow>
             if err \<noteq> None then (c, [], Inr err)
             else
               (case fmlookup (items c) key of
                  Some v \<Rightarrow>
                    (c\<lparr>items := fmupd key (v\<lparr>Object := i ! 0, expire := exp\<rparr>) (items c)\<rparr>,
                     [(EventUpdate, key, i ! 0)], Inr None)
                | None \<Rightarrow>
                    (let m = fmupd key \<lparr>Object = i ! 0, expire = exp\<rparr> (items c)
                     in (c\<lparr>items := m, lenCurrent := len m\<rparr>,
                         [(EventSet, key, i ! 0)], Inr None)))))"

definition Touch :: "stash \<Rightarrow> string \<Rightarrow> go_value list \<Rightarrow> Time \<Rightarrow> stash \<times> emission list \<times> (panic + error)" where
  "Touch c key i now =
     (case resolveTime c i now of
        Inl p \<Rightarrow> (c, [], Inl p)
      | Inr (exp, err) \<Rightarrow>
          if err \<noteq> None then (c, [], Inr err)
          else
            (case fmlookup (items c) key of
               Some it \<Rightarrow>
                 (c\<lparr>items := fmupd key (it\<lparr>expire := exp\<rparr>) (items c)\<rparr>,
                  [(EventTouch, key, Object it)], Inr None)
             | None \<Rightarrow> (c, [], Inr None)))"

text \<open>
  \<^verbatim>\<open>remove\<close>: \<open>ob\<close> is the \<^verbatim>\<open>*item\<close> read from the map, nil (\<open>None\<close>) when the key is
  absent. The argument \<^verbatim>\<open>o.Object\<close> of the \<^verbatim>\<open>go\<close> statement is evaluated by the caller,
  after the map has been updated and the lock released; on a nil pointer it panics.
\<close>

definition remove :: "stash \<Rightarrow> string \<Rightarrow> Event \<Rightarrow> stash \<times> emission list \<times> (panic + (go_value \<times> bool))" where
  "remove c key event =
     (let ob = fmlookup (items c) key;
          ok = (ob \<noteq> None);
          c' = (if ok then (let m = fmdrop key (items c) in c\<lparr>items := m, lenCurrent := len m\<rparr>)
                else c)
      in (case ob of
            None \<Rightarrow> (c', [], Inl NilPointerDereference)
          | Some it \<Rightarrow>
              (c', [(event, key, Object it)], Inr (VItemPtr (Object it) (expire it), ok))))"

definition Remove :: "stash \<Rightarrow> string \<Rightarrow> stash \<times> emission list \<times> (panic + (go_value \<times> bool))" where
  "Remove c key = remove c key EventRemove"

definition Get :: "stash \<Rightarrow> string \<Rightarrow> Time \<Rightarrow> stash \<times> emission list \<times> (go_value \<times> bool)" where
  "Get c key now =
     (case fmlookup (items c) key of
        None \<Rightarrow> (c, [(EventMiss, key, VNil)], (VNil, False))
      | Some it \<Rightarrow>
          if 0 <s expire it \<and> expire it <s UnixNano now
          then (c, [(EventMiss, key, VNil)], (VNil, False))
          else (c, [(EventGet, key, VItemPtr (Object it) (expire it))], (Object it, True)))"

text \<open>\<^verbatim>\<open>GetString\<close>; \<open>Sprintf_v\<close> is \<^verbatim>\<open>fmt.Sprintf("%v", v)\<close> of the standard library,
  taken as a parameter.\<close>

definition GetString :: "(go_value \<Rightarrow> string) \<Rightarrow> stash \<Rightarrow> string \<Rightarrow> Time \<Rightarrow> stash \<times> emission list \<times> (string \<times> bool)" where
  "GetString Sprintf_v c key now =
     (case Get c key now of
        (c', es, (v, ok)) \<Rightarrow>
          if \<not> ok then (c', es, ('''', ok))
          else (case v of
                  VString s \<Rightarrow> (c', es, (s, ok))
                | _ \<Rightarrow> (c', es, (Sprintf_v v, ok))))"

definition Len :: "stash \<Rightarrow> int" where
  "Len c = lenCurrent c"

definition Clean :: "stash \<Rightarrow> stash \<times> emission list" where
  "Clean c = (let m = fmempty in (c\<lparr>items := m, lenCurrent := len m\<rparr>, [(EventClean, '''', VNil)]))"

section \<open>The sweep\<close>

text \<open>
  \<^verbatim>\<open>expire\<close> (named \<open>stash_expire\<close> here, \<open>expire\<close> being the field of \<open>item\<close>)
  first scans the map: \<open>expire_scan\<close> is its \<^verbatim>\<open>for key, item := range c.items\<close> loop.
  Go visits the keys of a map in an unspecified order; the order is the parameter
  \<open>order\<close>, a list of the keys. The goroutine that \<^verbatim>\<open>expire\<close> starts then calls
  \<^verbatim>\<open>remove\<close> on every collected key: \<open>expire_loop\<close> runs it to its end, or to the
  first panic.
\<close>

fun expire_scan :: "(string, item) fmap \<Rightarrow> int64 \<Rightarrow> string list \<Rightarrow> string list \<Rightarrow> string list" where
  "expire_scan m curTime [] expiredItems = expiredItems"
| "expire_scan m curTime (key # order) expiredItems =
     (case fmlookup m key of
        None \<Rightarrow> expire_scan m curTime order expiredItems
      | Some it \<Rightarrow>
          if 0 <s expire it \<and> expire it <s curTime
          then expire_scan m curTime order (expiredItems @ [key])
          else expire_scan m curTime order expiredItems)"

fun expire_loop :: "stash \<Rightarrow> string list \<Rightarrow> Event \<Rightarrow> stash \<times> emission list \<times> (panic + unit)" where
  "expire_loop c [] event = (c, [], Inr ())"
| "expire_loop c (key # removed) event =
     (case remove c key event of
        (c', es, Inl p) \<Rightarrow> (c', es, Inl p)
      | (c', es, Inr _) \<Rightarrow>
          (case expire_loop c' removed event of
             (c'', es', r) \<Rightarrow> (c'', es @ es', r)))"

definition stash_expire :: "stash \<Rightarrow> Event \<Rightarrow> string list \<Rightarrow> Time \<Rightarrow> stash \<times> emission list \<times> (panic + unit)" where
  "stash_expire c event order now =
     expire_loop c (expire_scan (items c) (UnixNano now) order []) event"

definition Flush :: "stash \<Rightarrow> string list \<Rightarrow> Time \<Rightarrow> stash \<times> emission list \<times> (panic + unit)" where
  "Flush c order now = stash_expire c EventFlush order now"

section \<open>Construction\<close>

definition startGc :: "stash \<Rightarrow> stash" where
  "startGc c = c\<lparr>gc := Some \<lparr>Interval = gcPeriod c\<rparr>\<rparr>"

definition LenLimit :: "int \<Rightarrow> stash \<Rightarrow> stash" where
  "LenLimit limit c = (if limit \<ge> NoLenLimit then c\<lparr>lenLimit := limit\<rparr> else c)"

definition ExpireAfter :: "Duration \<Rightarrow> stash \<Rightarrow> stash" where
  "ExpireAfter dur c = c\<lparr>expirePeriod := (if dur <s 0 then NoExpire else dur)\<rparr>"

definition GcPeriod :: "Duration \<Rightarrow> stash \<Rightarrow> stash" where
  "GcPeriod dur c = c\<lparr>gcPeriod := (if dur <s 10 * Millisecond then DefaultCgPeriod else dur)\<rparr>"

text \<open>\<^verbatim>\<open>OnEvent\<close>: a nil handler is \<open>None\<close>.\<close>

definition OnEvent :: "OnEventHandler option \<Rightarrow> Event list \<Rightarrow> stash \<Rightarrow> stash" where
  "OnEvent hnd evs c =
     (case hnd of
        None \<Rightarrow> c
      | Some h \<Rightarrow>
          if length evs = 0 then c
          else c\<lparr>events := Some (EventHandler evs h (events c))\<rparr>)"

text \<open>\<^verbatim>\<open>CloneFrom\<close>: a nil source is \<open>None\<close>; the loop over \<^verbatim>\<open>src.items\<close> stores a copy
  of every entry of the source, over what the map held.\<close>

definition CloneFrom :: "stash option \<Rightarrow> stash \<Rightarrow> stash" where
  "CloneFrom src c =
     (case src of
        None \<Rightarrow> c
      | Some s \<Rightarrow>
          (let m = items c ++\<^sub>f items s
           in c\<lparr>expirePeriod := expirePeriod s, gcPeriod := gcPeriod s,
                lenLimit := lenLimit s, items := m, lenCurrent := len m\<rparr>))"

text \<open>\<^verbatim>\<open>New\<close>: the options are applied in order to the initial struct; the sweeper is
  started when the resulting period is positive.\<close>

definition New :: "(stash \<Rightarrow> stash) list \<Rightarrow> stash" where
  "New opts =
     (let c = fold (\<lambda>opt c. opt c) opts
                \<lparr>expirePeriod = DefaultExpire, gcPeriod = DefaultCgPeriod,
                 lenLimit = NoLenLimit, lenCurrent = 0, items = fmempty,
                 events = None, gc = None\<rparr>
      in if 0 <s gcPeriod c then startGc c else c)"

section \<open>Notions used to state the properties\<close>

text \<open>The links of an observer chain, head first.\<close>

fun chain :: "eventHandler option \<Rightarrow> eventHandler list" where
  "chain None = []"
| "chain (Some (EventHandler es hnd nxt)) = EventHandler es hnd nxt # chain nxt"

text \<open>An observer is subscribed to an event kind when the kind is in its kind-set or the
  set holds the wildcard.\<close>

definition subscribed :: "eventHandler \<Rightarrow> Event \<Rightarrow> bool" where
  "subscribed h event = (event \<in> set (h_events h) \<or> EventAny \<in> set (h_events h))"

text \<open>An entry's deadline has passed at \<open>now\<close>: the test of \<^verbatim>\<open>Get\<close>, of the scan and of
  \<^verbatim>\<open>resolveTime\<close>; a deadline that is not positive never passes.\<close>

definition past :: "int64 \<Rightarrow> Time \<Rightarrow> bool" where
  "past exp now = (0 <s exp \<and> exp <s UnixNano now)"

text \<open>
  Stores reached through the public interface, used as concrete inputs: a store with
  capacity limit 1 after one successful \<^verbatim>\<open>Set\<close>, and a store without limit holding the
  key \<open>''a''\<close> with a deadline of 500 ns after the epoch (set at 100 ns).
\<close>

definition full_store :: stash where
  "full_store = fst (Set (New [LenLimit 1]) ''a'' [VString ''x''] 1000)"

definition aged_store :: stash where
  "aged_store = fst (Set (New []) ''a'' [VString ''x'', VTime 500] 100)"

text \<open>The same store after a further \<^verbatim>\<open>Set\<close> of the key \<open>''n''\<close> to the \<^verbatim>\<open>int\<close> 12.\<close>

definition num_store :: stash where
  "num_store = fst (Set aged_store ''n'' [VInt 12] 100)"

section \<open>Evaluation lemmas\<close>

lemmas const_defs = Millisecond_def Second_def Minute_def NoLenLimit_def NoExpire_def
  DefaultExpire_def DefaultCgPeriod_def UnixNano_def

lemma toTime_VNil: "toTime now VNil = Inr NoExpire"
  by (simp add: toTime.simps)

lemma toTime_VTime: "toTime now (VTime t) = Inr (UnixNano t)"
  by (simp add: toTime.simps)

lemma toTime_VTimePtr:
  "toTime now (VTimePtr p) = (case p of Some t \<Rightarrow> Inr (UnixNano t) | None \<Rightarrow> Inr DefaultExpire)"
  by (simp add: toTime.simps)

lemma toTime_VDuration:
  "toTime now (VDuration dur) =
     (if dur = DefaultExpire then Inr DefaultExpire
      else if dur = NoExpire then Inr NoExpire
      else Inr (UnixNano (Add now dur)))"
  by (simp add: toTime.simps [of now "VDuration dur"] toTime_VTime)

lemma toTime_VInt64: "toTime now (VInt64 n) = toTime now (VDuration (Second * n))"
  by (simp add: toTime.simps [of now "VInt64 n"] assert_int64_def)

lemma toTime_VUint64: "toTime now (VUint64 n) = toTime now (VDuration (Second * n))"
  by (simp add: toTime.simps [of now "VUint64 n"] assert_uint64_def)

lemma toTime_unrecognized:
  "toTime now (VString s) = Inr DefaultExpire"
  "toTime now (VBool b) = Inr DefaultExpire"
  "toTime now (VItemPtr ob ex) = Inr DefaultExpire"
  "toTime now (VOther d) = Inr DefaultExpire"
  by (simp_all add: toTime.simps)

lemma New_empty:
  "New [] = \<lparr>expirePeriod = 0, gcPeriod = 300000000000, lenLimit = 0, lenCurrent = 0,
     items = fmempty, events = None, gc = Some \<lparr>Interval = 300000000000\<rparr>\<rparr>"
  by (simp add: New_def startGc_def const_defs word_sless_alt)

lemma New_limit1:
  "New [LenLimit 1] = \<lparr>expirePeriod = 0, gcPeriod = 300000000000, lenLimit = 1,
     lenCurrent = 0, items = fmempty, events = None, gc = Some \<lparr>Interval = 300000000000\<rparr>\<rparr>"
  by (simp add: New_def LenLimit_def startGc_def const_defs word_sless_alt)

lemma full_store_eq:
  "full_store = \<lparr>expirePeriod = 0, gcPeriod = 300000000000, lenLimit = 1, lenCurrent = 1,
     items = fmupd ''a'' \<lparr>Object = VString ''x'', expire = 0\<rparr> fmempty, events = None,
     gc = Some \<lparr>Interval = 300000000000\<rparr>\<rparr>"
  by (simp add: full_store_def New_limit1 Set_def resolveTime_def toTime_VDuration
      DefaultExpire_def len_def fcard_finsert_if)

lemma aged_store_eq:
  "aged_store = \<lparr>expirePeriod = 0, gcPeriod = 300000000000, lenLimit = 0, lenCurrent = 1,
     items = fmupd ''a'' \<lparr>Object = VString ''x'', expire = 500\<rparr> fmempty, events = None,
     gc = Some \<lparr>Interval = 300000000000\<rparr>\<rparr>"
  by (simp add: aged_store_def New_empty Set_def resolveTime_def toTime_VTime
      const_defs len_def fcard_finsert_if word_sless_alt)

section \<open>Capacity limit\<close>

text \<open>
  C1. The claim: in a store with capacity limit N that holds N keys, \<^verbatim>\<open>Set\<close> on a key
  already present succeeds and updates the entry. The code tests the limit before it
  looks the key up: in \<open>full_store\<close> (limit 1, one key \<open>''a''\<close>) a \<^verbatim>\<open>Set\<close> on
  \<open>''a''\<close> returns the error \<^verbatim>\<open>len limit reached\<close> and leaves the entry as it was.
\<close>

theorem Set_existing_key_at_capacity_rejected:
  "Len full_store = 1 \<and> lenLimit full_store = 1
   \<and> fmlookup (items full_store) ''a'' = Some \<lparr>Object = VString ''x'', expire = 0\<rparr>
   \<and> Set full_store ''a'' [VString ''y''] 1000
       = (full_store, [], Inr (Some ''len limit reached''))"
  by (simp add: full_store_eq Len_def Set_def)

section \<open>Removal of an absent key\<close>

text \<open>
  C2. The claim: \<^verbatim>\<open>Remove\<close> of an absent key returns (nil, false) and completes without
  failure, and so does the removal path of the sweep on a key already removed. The code
  evaluates \<^verbatim>\<open>o.Object\<close> on the nil pointer it read from the map: both calls end in a
  nil-pointer panic (the map and the count are as before).
\<close>

theorem Remove_absent_key_panics:
  "Remove (New []) ''a'' = (New [], [], Inl NilPointerDereference)
   \<and> fmlookup (items (fst (remove aged_store ''a'' EventExpire))) ''a'' = None
   \<and> remove (fst (remove aged_store ''a'' EventExpire)) ''a'' EventExpire
       = (fst (remove aged_store ''a'' EventExpire), [], Inl NilPointerDereference)"
  by (simp add: New_empty aged_store_eq Remove_def remove_def Let_def)

section \<open>Integer specifiers\<close>

text \<open>
  C5. The claim: deadline resolution never fails on an integer of any width. In the
  integer cases of the type switch the code asserts \<^verbatim>\<open>i.(int64)\<close> (or \<^verbatim>\<open>i.(uint64)\<close>),
  which panics for every other integer type: \<^verbatim>\<open>Set("k", "v", 5)\<close>, with the \<^verbatim>\<open>int\<close> 5,
  panics.
\<close>

theorem toTime_int_specifier_panics:
  "toTime now (VInt 5) = Inl InterfaceConversion
   \<and> resolveTime c [v, VInt 5] now = Inl InterfaceConversion
   \<and> Set (New []) ''k'' [VString ''v'', VInt 5] now = (New [], [], Inl InterfaceConversion)"
  by (simp add: toTime.simps assert_int64_def New_empty Set_def resolveTime_def)

section \<open>Sweep interval\<close>

text \<open>
  C3, as amended. \<^verbatim>\<open>GcPeriod\<close> replaces every duration below 10 ms, the non-positive
  ones included, by the default period of 5 minutes and keeps a duration of at least
  10 ms; \<^verbatim>\<open>New\<close> then starts the sweeper with that interval, whatever options came
  before.
\<close>

theorem GcPeriod_below_10ms_takes_default:
  "gcPeriod (GcPeriod dur c) = (if dur <s 10 * Millisecond then DefaultCgPeriod else dur)
   \<and> gc (New (opts @ [GcPeriod dur]))
       = Some \<lparr>Interval = (if dur <s 10 * Millisecond then DefaultCgPeriod else dur)\<rparr>"
  by (auto simp add: New_def GcPeriod_def startGc_def const_defs word_sless_alt)

theorem GcPeriod_below_10ms_takes_default_witness:
  "gcPeriod (GcPeriod 1 (New [])) = 300000000000
   \<and> gc (New ([] @ [GcPeriod 1])) = Some \<lparr>Interval = 300000000000\<rparr>
   \<and> gc (New ([LenLimit 1] @ [GcPeriod 20000000])) = Some \<lparr>Interval = 20000000\<rparr>"
  using GcPeriod_below_10ms_takes_default [of 1 "New []" "[]"]
    GcPeriod_below_10ms_takes_default [of 20000000 "New []" "[LenLimit 1]"]
  by (simp add: const_defs word_sless_alt)

text \<open>
  C3, as stated, fails: with the non-positive durations 0 and -1 the sweeper is started,
  with an interval of 5 minutes.
\<close>

theorem GcPeriod_nonpositive_counterexample:
  "gc (New [GcPeriod 0]) = Some \<lparr>Interval = 300000000000\<rparr>
   \<and> gc (New [GcPeriod (- 1)]) = Some \<lparr>Interval = 300000000000\<rparr>"
  by (simp add: New_def GcPeriod_def startGc_def const_defs word_sless_alt)

section \<open>Touch of an absent key\<close>

lemma resolveTime_aged_default: "resolveTime aged_store [] 1000 = Inr (0, None)"
  by (simp add: resolveTime_def aged_store_eq toTime_VDuration const_defs)

text \<open>
  C4, as amended. When the specifier resolves without error, \<^verbatim>\<open>Touch\<close> of an absent key
  leaves the store as it is, emits no event and returns nil; with the same specifier
  \<^verbatim>\<open>Touch\<close> returns nil for every key, present or not.
\<close>

theorem Touch_absent_key_noop_returns_nil:
  assumes "fmlookup (items c) key = None" and "resolveTime c i now = Inr (exp, None)"
  shows "Touch c key i now = (c, [], Inr None)
    \<and> (\<forall>k. snd (snd (Touch c k i now)) = Inr None)"
  using assms by (simp add: Touch_def split: option.splits)

theorem Touch_absent_key_noop_returns_nil_witness:
  "fmlookup (items aged_store) ''b'' = None
   \<and> resolveTime aged_store [] 1000 = Inr (0, None)
   \<and> Touch aged_store ''b'' [] 1000 = (aged_store, [], Inr None)
   \<and> snd (snd (Touch aged_store ''a'' [] 1000)) = Inr None"
proof -
  have h1: "fmlookup (items aged_store) ''b'' = None"
    by (simp add: aged_store_eq)
  show ?thesis
    using Touch_absent_key_noop_returns_nil [OF h1 resolveTime_aged_default]
      h1 resolveTime_aged_default
    by simp
qed

text \<open>
  C4, as stated, fails: in \<open>aged_store\<close> the key \<open>''b''\<close> is absent and \<open>''a''\<close> is
  present, and \<^verbatim>\<open>Touch\<close> returns the same result for both.
\<close>

theorem Touch_absent_indistinguishable_counterexample:
  "fmlookup (items aged_store) ''b'' = None
   \<and> fmlookup (items aged_store) ''a'' \<noteq> None
   \<and> snd (snd (Touch aged_store ''b'' [] 1000)) = snd (snd (Touch aged_store ''a'' [] 1000))"
  by (simp add: Touch_def resolveTime_aged_default) (simp add: aged_store_eq)

section \<open>Rejection of a past deadline\<close>

text \<open>
  C6. When the specifier of \<^verbatim>\<open>Set\<close> resolves to a deadline that has passed (positive and
  before now), \<^verbatim>\<open>Set\<close> returns an error, the store is the one before the call and no
  event is emitted; a key absent before the call is not found by a later \<^verbatim>\<open>Get\<close>.
\<close>

theorem Set_past_deadline_rejected:
  assumes "resolveTime c i now = Inr (exp, err)" and "past exp now"
  shows "(\<exists>msg. Set c key i now = (c, [], Inr (Some msg)))
    \<and> (fmlookup (items c) key = None \<longrightarrow>
         snd (snd (Get (fst (Set c key i now)) key now')) = (VNil, False))"
proof -
  have err: "err = Some ''expire time is in the past''"
    using assms by (auto simp: resolveTime_def past_def split: sum.splits if_splits)
  have rej: "\<exists>msg. Set c key i now = (c, [], Inr (Some msg))"
    using assms(1) err by (simp add: Set_def)
  then have "fst (Set c key i now) = c" by auto
  then have "fmlookup (items c) key = None \<longrightarrow>
      snd (snd (Get (fst (Set c key i now)) key now')) = (VNil, False)"
    by (simp add: Get_def)
  with rej show ?thesis by simp
qed

theorem Set_past_deadline_rejected_witness:
  "resolveTime (New []) [VString ''v'', VTime 500] 1000
       = Inr (500, Some ''expire time is in the past'')
   \<and> past 500 1000
   \<and> fmlookup (items (New [])) ''k'' = None
   \<and> Set (New []) ''k'' [VString ''v'', VTime 500] 1000
       = (New [], [], Inr (Some ''expire time is in the past''))
   \<and> snd (snd (Get (fst (Set (New []) ''k'' [VString ''v'', VTime 500] 1000)) ''k'' 2000))
       = (VNil, False)"
proof -
  have r: "resolveTime (New []) [VString ''v'', VTime 500] 1000
      = Inr (500, Some ''expire time is in the past'')"
    by (simp add: resolveTime_def toTime_VTime const_defs word_sless_alt)
  have p: "past 500 1000"
    by (simp add: past_def const_defs word_sless_alt)
  have e: "fmlookup (items (New [])) ''k'' = None"
    by (simp add: New_empty)
  show ?thesis
    using Set_past_deadline_rejected [OF r p, of "''k''" 2000] r p e
    by (auto simp: Set_def New_empty)
qed

section \<open>Lazy expiration\<close>

text \<open>
  C7. For a key whose entry has a deadline that has passed, \<^verbatim>\<open>Get\<close> returns
  (nil, false), and the store after the call is the store before it: the entry is still
  in the map and \<^verbatim>\<open>Len\<close> is unchanged. Nothing is assumed about the sweeper.
\<close>

theorem Get_expired_entry_kept:
  assumes "fmlookup (items c) key = Some it" and "past (expire it) now"
  shows "snd (snd (Get c key now)) = (VNil, False)
    \<and> fst (Get c key now) = c
    \<and> fmlookup (items (fst (Get c key now))) key = Some it
    \<and> Len (fst (Get c key now)) = Len c"
  using assms by (simp add: Get_def past_def)

theorem Get_expired_entry_kept_witness:
  "fmlookup (items (aged_store\<lparr>gc := None\<rparr>)) ''a''
       = Some \<lparr>Object = VString ''x'', expire = 500\<rparr>
   \<and> past (expire \<lparr>Object = VString ''x'', expire = 500\<rparr>) 1000
   \<and> snd (snd (Get (aged_store\<lparr>gc := None\<rparr>) ''a'' 1000)) = (VNil, False)
   \<and> fst (Get (aged_store\<lparr>gc := None\<rparr>) ''a'' 1000) = aged_store\<lparr>gc := None\<rparr>
   \<and> Len (fst (Get (aged_store\<lparr>gc := None\<rparr>) ''a'' 1000)) = 1"
proof -
  have l: "fmlookup (items (aged_store\<lparr>gc := None\<rparr>)) ''a''
      = Some \<lparr>Object = VString ''x'', expire = 500\<rparr>"
    by (simp add: aged_store_eq)
  have p: "past (expire \<lparr>Object = VString ''x'', expire = 500\<rparr>) 1000"
    by (simp add: past_def const_defs word_sless_alt)
  have n: "Len (aged_store\<lparr>gc := None\<rparr>) = 1"
    by (simp add: Len_def aged_store_eq)
  show ?thesis
    using Get_expired_entry_kept [OF l p] l p n by simp
qed

section \<open>Event fan-out\<close>

lemma fire_loop_eq:
  "fire_loop es hnd event key val =
     (if event \<in> set es \<or> EventAny \<in> set es then [(hnd, event, key, val)] else [])"
  by (induction es) auto

lemma fire_next:
  "(if nxt \<noteq> None then fire nxt event key val else []) = fire nxt event key val"
  by (cases nxt) simp_all

lemma OnEvent_chain:
  "chain (events (OnEvent (Some hnd) evs c)) =
     (if evs = [] then chain (events c)
      else EventHandler evs hnd (events c) # chain (events c))"
  by (simp add: OnEvent_def)

text \<open>
  C8. Firing an event starts, for every observer of the chain that is subscribed to the
  kind of the event (the kind is in its kind-set, or the wildcard is), exactly one call of
  its callback, with the event fired, and starts no other call: as multisets, the calls
  are the callbacks of the subscribed observers.
\<close>

theorem fire_calls_subscribed_observers:
  "mset (fire h event key val) =
     mset (map (\<lambda>l. (h_handler l, event, key, val))
            (filter (\<lambda>l. subscribed l event) (chain h)))"
proof (induction h rule: chain.induct)
  case 1
  show ?case by simp
next
  case (2 es hnd nxt)
  then show ?case
    by (simp add: fire_next fire_loop_eq subscribed_def)
qed

theorem fire_calls_subscribed_observers_witness:
  "mset (fire (Some (EventHandler [EventExpire, EventFlush] 2
                 (Some (EventHandler [EventSet] 1 (Some (EventHandler [EventAny] 0 None))))))
          EventFlush ''k'' VNil)
   = {#(2, EventFlush, ''k'', VNil), (0, EventFlush, ''k'', VNil)#}"
  using fire_calls_subscribed_observers
    [of "Some (EventHandler [EventExpire, EventFlush] 2
           (Some (EventHandler [EventSet] 1 (Some (EventHandler [EventAny] 0 None)))))"
        EventFlush "''k''" VNil]
  by (simp add: subscribed_def)

section \<open>The cached count\<close>

lemma len_fmupd_present:
  "fmlookup m key = Some it \<Longrightarrow> len (fmupd key it' m) = len m"
  by (simp add: len_def fcard_finsert_if fmlookup_dom_iff)

lemma remove_len:
  "lenCurrent c = len (items c) \<Longrightarrow>
   lenCurrent (fst (remove c key ev)) = len (items (fst (remove c key ev)))"
  by (simp add: remove_def Let_def split: option.splits)

lemma expire_loop_len:
  "lenCurrent c = len (items c) \<Longrightarrow>
   lenCurrent (fst (expire_loop c ks ev)) = len (items (fst (expire_loop c ks ev)))"
proof (induction ks arbitrary: c)
  case Nil
  then show ?case by simp
next
  case (Cons k ks)
  have r: "lenCurrent (fst (remove c k ev)) = len (items (fst (remove c k ev)))"
    using Cons.prems by (rule remove_len)
  show ?case
  proof (cases "remove c k ev")
    case (fields c' es r')
    then show ?thesis using r Cons.IH [of c']
      by (cases r') (auto split: prod.splits)
  qed
qed

lemma Set_len:
  "lenCurrent c = len (items c) \<Longrightarrow>
   lenCurrent (fst (Set c key i now)) = len (items (fst (Set c key i now)))"
  by (simp add: Set_def Let_def len_fmupd_present split: sum.splits prod.splits option.splits)

lemma Touch_len:
  "lenCurrent c = len (items c) \<Longrightarrow>
   lenCurrent (fst (Touch c key i now)) = len (items (fst (Touch c key i now)))"
  by (simp add: Touch_def Let_def len_fmupd_present split: sum.splits prod.splits option.splits)

lemma Get_unchanged: "fst (Get c key now) = c"
  by (simp add: Get_def split: option.splits)

lemma New_len: "Len (New []) = len (items (New []))"
  by (simp add: New_empty Len_def len_def)

lemma option_len:
  assumes "lenCurrent c = len (items c)"
  shows "lenCurrent (LenLimit n c) = len (items (LenLimit n c))"
    and "lenCurrent (ExpireAfter d c) = len (items (ExpireAfter d c))"
    and "lenCurrent (GcPeriod d c) = len (items (GcPeriod d c))"
    and "lenCurrent (OnEvent hnd evs c) = len (items (OnEvent hnd evs c))"
    and "lenCurrent (CloneFrom src c) = len (items (CloneFrom src c))"
  using assms
  by (simp_all add: LenLimit_def ExpireAfter_def GcPeriod_def OnEvent_def CloneFrom_def
      Let_def split: option.splits)

text \<open>
  C9. If the cached count equals the number of keys of the map before an operation, it
  does so after it: for \<^verbatim>\<open>Set\<close>, \<^verbatim>\<open>Touch\<close>, \<^verbatim>\<open>Get\<close>, \<^verbatim>\<open>Remove\<close>, the removal path
  \<^verbatim>\<open>remove\<close> with any event kind, \<^verbatim>\<open>Clean\<close> and a whole sweep. The number of keys
  counts every entry of the map, expired or not.
\<close>

theorem Len_equals_number_of_keys:
  assumes "Len c = len (items c)"
  shows "Len (fst (Set c key i now)) = len (items (fst (Set c key i now)))
    \<and> Len (fst (Touch c key i now)) = len (items (fst (Touch c key i now)))
    \<and> Len (fst (Get c key now)) = len (items (fst (Get c key now)))
    \<and> Len (fst (Remove c key)) = len (items (fst (Remove c key)))
    \<and> Len (fst (remove c key event)) = len (items (fst (remove c key event)))
    \<and> Len (fst (Clean c)) = len (items (fst (Clean c)))
    \<and> Len (fst (stash_expire c event order now))
        = len (items (fst (stash_expire c event order now)))"
  using assms
  by (simp add: Len_def Set_len Touch_len Get_unchanged Remove_def remove_len Clean_def
      stash_expire_def expire_loop_len)

theorem Len_equals_number_of_keys_witness:
  "Len aged_store = len (items aged_store)
   \<and> Len (fst (Set aged_store ''b'' [VString ''y''] 1000)) = 2
   \<and> len (items (fst (Set aged_store ''b'' [VString ''y''] 1000))) = 2
   \<and> Len (fst (Remove aged_store ''a'')) = 0
   \<and> len (items (fst (Remove aged_store ''a''))) = 0
   \<and> Len (fst (stash_expire aged_store EventExpire [''a''] 1000)) = 0
   \<and> len (items (fst (stash_expire aged_store EventExpire [''a''] 1000))) = 0
   \<and> Len (fst (Clean aged_store)) = len (items (fst (Clean aged_store)))"
proof -
  have h: "Len aged_store = len (items aged_store)"
    by (simp add: aged_store_eq Len_def len_def fcard_finsert_if)
  have s: "Len (fst (Set aged_store ''b'' [VString ''y''] 1000)) = 2"
    by (simp add: aged_store_eq Len_def Set_def resolveTime_def toTime_VDuration const_defs
        len_def fcard_finsert_if Let_def)
  have r: "Len (fst (Remove aged_store ''a'')) = 0"
    by (simp add: aged_store_eq Len_def Remove_def remove_def Let_def len_def)
  have e: "Len (fst (stash_expire aged_store EventExpire [''a''] 1000)) = 0"
    by (simp add: aged_store_eq Len_def stash_expire_def remove_def Let_def len_def
        const_defs word_sless_alt)
  show ?thesis
    using Len_equals_number_of_keys [OF h, of "''b''" "[VString ''y'']" 1000]
      Len_equals_number_of_keys [OF h, of "''a''" "[]" 1000 EventExpire "[''a'']"]
      h s r e
    by simp
qed

section \<open>GetString\<close>

lemma Get_aged_a: "snd (snd (Get aged_store ''a'' 100)) = (VString ''x'', True)"
  by (simp add: Get_def aged_store_eq const_defs word_sless_alt)

lemma Get_aged_expired: "snd (snd (Get aged_store ''a'' 1000)) = (VNil, False)"
  by (simp add: Get_def aged_store_eq const_defs word_sless_alt)

lemma Get_num_n: "snd (snd (Get num_store ''n'' 100)) = (VInt 12, True)"
  by (simp add: num_store_def Get_def Set_def aged_store_eq resolveTime_def toTime_VDuration
      const_defs word_sless_alt Let_def)

text \<open>
  C10. \<^verbatim>\<open>GetString\<close> returns ("", false) exactly when \<^verbatim>\<open>Get\<close> reports not-found; when
  \<^verbatim>\<open>Get\<close> finds a string, \<^verbatim>\<open>GetString\<close> returns that string and true; when \<^verbatim>\<open>Get\<close>
  finds a value that is not a string, \<^verbatim>\<open>GetString\<close> returns its \<^verbatim>\<open>%v\<close> formatting and
  true.
\<close>

theorem GetString_result:
  "(snd (snd (GetString Sprintf_v c key now)) = ('''', False)
      \<longleftrightarrow> \<not> snd (snd (snd (Get c key now))))
   \<and> (snd (snd (Get c key now)) = (VString s, True)
        \<longrightarrow> snd (snd (GetString Sprintf_v c key now)) = (s, True))
   \<and> (snd (snd (Get c key now)) = (v, True) \<and> (\<forall>s. v \<noteq> VString s)
        \<longrightarrow> snd (snd (GetString Sprintf_v c key now)) = (Sprintf_v v, True))"
  by (auto simp: GetString_def split: prod.splits go_value.splits)

theorem GetString_result_witness:
  "snd (snd (Get aged_store ''a'' 100)) = (VString ''x'', True)
   \<and> snd (snd (GetString (\<lambda>v. ''12'') aged_store ''a'' 100)) = (''x'', True)
   \<and> snd (snd (Get num_store ''n'' 100)) = (VInt 12, True)
   \<and> snd (snd (GetString (\<lambda>v. ''12'') num_store ''n'' 100)) = (''12'', True)
   \<and> \<not> snd (snd (snd (Get aged_store ''a'' 1000)))
   \<and> snd (snd (GetString (\<lambda>v. ''12'') aged_store ''a'' 1000)) = ('''', False)"
  using GetString_result [of "\<lambda>v. ''12''" aged_store "''a''" 100 "''x''" VNil]
    GetString_result [of "\<lambda>v. ''12''" num_store "''n''" 100 "''x''" "VInt 12"]
    GetString_result [of "\<lambda>v. ''12''" aged_store "''a''" 1000 "''x''" VNil]
    Get_aged_a Get_num_n Get_aged_expired
  by simp

end
